theory Spec2Isabelle
  imports Main "HOL-Library.Word"
begin

unbundle bit_operations_syntax

section \<open>JavaScript values shared by the modules\<close>

text \<open>
  A JavaScript string is a sequence of UTF-16 code units: \<open>length\<close> and \<open>slice\<close>
  count code units, and only \<open>TextEncoder\<close> turns them into UTF-8 bytes.
  The strings whose encoding matters (the secret, the signature header, the
  signed message) are therefore lists of 16-bit words; identifiers, tokens and
  URLs, which the program only stores, compares and forwards, are HOL strings.
\<close>

type_synonym jsstring = "16 word list"
type_synonym bytes = "8 word list"

text \<open>
  Every \<open>throw\<close> of the program and of the platform functions it calls is a
  value of this type: the template strings of the source become constructors
  that carry the interpolated values.
\<close>

datatype js_error =
    TypeError
  | FetchFailed
  | InvalidJson
  | AccessTokenFailed nat string
  | ApiRequestFailed nat string
  | SessionQuotaExhausted int
  | FatalWebSocketError int string
  | MaxReconnectAttemptsReached
  | SocketError string
  | LibraryError string

definition isHighSurrogate :: "16 word \<Rightarrow> bool" where
  "isHighSurrogate u = (0xD800 \<le> u \<and> u \<le> 0xDBFF)"

definition isLowSurrogate :: "16 word \<Rightarrow> bool" where
  "isLowSurrogate u = (0xDC00 \<le> u \<and> u \<le> 0xDFFF)"

definition utf8_of_code_point :: "nat \<Rightarrow> bytes" where
  "utf8_of_code_point cp =
     (if cp < 0x80 then [of_nat cp]
      else if cp < 0x800 then [of_nat (0xC0 + cp div 64), of_nat (0x80 + cp mod 64)]
      else if cp < 0x10000 then
        [of_nat (0xE0 + cp div 4096), of_nat (0x80 + (cp div 64) mod 64),
         of_nat (0x80 + cp mod 64)]
      else
        [of_nat (0xF0 + cp div 262144), of_nat (0x80 + (cp div 4096) mod 64),
         of_nat (0x80 + (cp div 64) mod 64), of_nat (0x80 + cp mod 64)])"

definition utf8_of_code_unit :: "16 word \<Rightarrow> bytes" where
  "utf8_of_code_unit u =
     (if isHighSurrogate u \<or> isLowSurrogate u then [0xEF, 0xBF, 0xBD]
      else utf8_of_code_point (unat u))"

text \<open>
  \<open>new TextEncoder().encode(s)\<close>: the UTF-8 encoding of the code points of
  \<open>s\<close>; a surrogate pair is one code point, a surrogate without its partner is
  replaced by U+FFFD.
\<close>

fun TextEncoder_encode :: "jsstring \<Rightarrow> bytes" where
  "TextEncoder_encode [] = []"
| "TextEncoder_encode [u] = utf8_of_code_unit u"
| "TextEncoder_encode (u # v # us) =
     (if isHighSurrogate u \<and> isLowSurrogate v
      then utf8_of_code_point (0x10000 + (unat u - 0xD800) * 1024 + (unat v - 0xDC00))
             @ TextEncoder_encode us
      else utf8_of_code_unit u @ TextEncoder_encode (v # us))"

section \<open>webhook/signature.ts\<close>

subsection \<open>deriveSeed\<close>

text \<open>
  The loop \<open>while (seed.length < 32) seed = seed + seed\<close> compares the number
  of code units and need not end, so it is a partial function: \<open>None\<close> is the
  run that never leaves the loop.
\<close>

partial_function (option) deriveSeed_loop :: "jsstring \<Rightarrow> jsstring option" where
  "deriveSeed_loop seed =
     (if length seed < 32 then deriveSeed_loop (seed @ seed) else Some seed)"

declare deriveSeed_loop.simps [code]

text \<open>\<open>seed.slice(0, 32)\<close> keeps the first 32 code units; they are encoded afterwards.\<close>

definition deriveSeed :: "jsstring \<Rightarrow> bytes option" where
  "deriveSeed botSecret =
     (case deriveSeed_loop botSecret of
        None \<Rightarrow> None
      | Some seed \<Rightarrow> Some (TextEncoder_encode (take 32 seed)))"

definition getPrivateKey :: "jsstring \<Rightarrow> bytes option" where
  "getPrivateKey botSecret = deriveSeed botSecret"

text \<open>
  The derivation in the words of the specification: the secret is doubled until
  its UTF-8 encoding has at least 32 bytes, and the seed is the first 32 bytes
  of that encoding.
\<close>

partial_function (option) spec_seed_loop :: "jsstring \<Rightarrow> jsstring option" where
  "spec_seed_loop seed =
     (if length (TextEncoder_encode seed) < 32 then spec_seed_loop (seed @ seed)
      else Some seed)"

declare spec_seed_loop.simps [code]

definition spec_seed :: "jsstring \<Rightarrow> bytes option" where
  "spec_seed S =
     (case spec_seed_loop S of
        None \<Rightarrow> None
      | Some seed \<Rightarrow> Some (take 32 (TextEncoder_encode seed)))"

subsection \<open>The Ed25519 library\<close>

text \<open>
  \<open>@noble/ed25519\<close> is not part of the repository: its three functions are
  parameters of the model. Each either returns or throws.
\<close>

record ed25519 =
  ed_getPublicKey :: "bytes \<Rightarrow> js_error + bytes"
  ed_sign :: "bytes \<Rightarrow> bytes \<Rightarrow> js_error + bytes"
  ed_verify :: "bytes \<Rightarrow> bytes \<Rightarrow> bytes \<Rightarrow> js_error + bool"

definition getPublicKey :: "ed25519 \<Rightarrow> jsstring \<Rightarrow> (js_error + bytes) option" where
  "getPublicKey ed botSecret =
     (case getPrivateKey botSecret of
        None \<Rightarrow> None
      | Some privateKey \<Rightarrow> Some (ed_getPublicKey ed privateKey))"

subsection \<open>hexToBytes and bytesToHex\<close>

text \<open>
  \<open>parseInt(str, 16)\<close>: leading white space is skipped, then an optional sign,
  then an optional \<open>0x\<close>, then the longest run of hexadecimal digits; with no
  digit the result is \<open>NaN\<close>, here \<open>None\<close>.
\<close>

definition isStrWhiteSpaceChar :: "16 word \<Rightarrow> bool" where
  "isStrWhiteSpaceChar u =
     (u \<in> set [0x09, 0x0A, 0x0B, 0x0C, 0x0D, 0x20, 0xA0, 0x1680, 0x2028, 0x2029,
                0x202F, 0x205F, 0x3000, 0xFEFF]
      \<or> (0x2000 \<le> u \<and> u \<le> 0x200A))"

definition hexDigitValue :: "16 word \<Rightarrow> int option" where
  "hexDigitValue u =
     (if 0x30 \<le> u \<and> u \<le> 0x39 then Some (uint u - 0x30)
      else if 0x61 \<le> u \<and> u \<le> 0x66 then Some (uint u - 0x61 + 10)
      else if 0x41 \<le> u \<and> u \<le> 0x46 then Some (uint u - 0x41 + 10)
      else None)"

definition isHexDigit :: "16 word \<Rightarrow> bool" where
  "isHexDigit u = (hexDigitValue u \<noteq> None)"

definition parseInt16 :: "jsstring \<Rightarrow> int option" where
  "parseInt16 str =
     (let S = dropWhile isStrWhiteSpaceChar str;
          sign = (if S \<noteq> [] \<and> hd S = 0x2D then - 1 else 1 :: int);
          S1 = (if S \<noteq> [] \<and> (hd S = 0x2B \<or> hd S = 0x2D) then tl S else S);
          S2 = (if 2 \<le> length S1 \<and> (take 2 S1 = [0x30, 0x78] \<or> take 2 S1 = [0x30, 0x58])
                then drop 2 S1 else S1);
          Z = takeWhile isHexDigit S2
      in if Z = [] then None
         else Some (sign * foldl (\<lambda>acc u. acc * 16 + the (hexDigitValue u)) 0 Z))"

text \<open>Storing into a \<open>Uint8Array\<close>: \<open>NaN\<close> becomes 0, an integer is taken modulo 256.\<close>

definition ToUint8 :: "int option \<Rightarrow> 8 word" where
  "ToUint8 v = (case v of None \<Rightarrow> 0 | Some n \<Rightarrow> word_of_int n)"

text \<open>
  \<open>new Uint8Array(hex.length / 2)\<close> truncates a fractional length, so a string
  of odd length loses its last character; \<open>hex.substring(i * 2, i * 2 + 2)\<close>
  is in range for every index of the array.
\<close>

definition hexToBytes :: "jsstring \<Rightarrow> bytes" where
  "hexToBytes hex =
     map (\<lambda>i. ToUint8 (parseInt16 (take 2 (drop (i * 2) hex)))) [0 ..< length hex div 2]"

definition hexChar :: "nat \<Rightarrow> 16 word" where
  "hexChar n = (if n < 10 then of_nat (0x30 + n) else of_nat (0x61 + (n - 10)))"

definition toString16 :: "8 word \<Rightarrow> jsstring" where
  "toString16 b =
     (if unat b < 16 then [hexChar (unat b)]
      else [hexChar (unat b div 16), hexChar (unat b mod 16)])"

definition padStart2 :: "jsstring \<Rightarrow> jsstring" where
  "padStart2 str = replicate (2 - length str) 0x30 @ str"

definition bytesToHex :: "bytes \<Rightarrow> jsstring" where
  "bytesToHex bs = concat (map (\<lambda>b. padStart2 (toString16 b)) bs)"

subsection \<open>verifySignature and signCallbackResponse\<close>

text \<open>
  The whole body of \<open>verifySignature\<close> is inside \<open>try\<close>: whatever is thrown
  yields \<open>false\<close>. A call that does not return is \<open>None\<close>.
\<close>

definition verifySignature ::
  "ed25519 \<Rightarrow> jsstring \<Rightarrow> jsstring \<Rightarrow> jsstring \<Rightarrow> jsstring \<Rightarrow> bool option" where
  "verifySignature ed signature timestamp body botSecret =
     (let message = timestamp @ body;
          messageBytes = TextEncoder_encode message;
          signatureBytes = hexToBytes signature
      in case getPublicKey ed botSecret of
           None \<Rightarrow> None
         | Some (Inl err) \<Rightarrow> Some False
         | Some (Inr publicKey) \<Rightarrow>
             (case ed_verify ed signatureBytes messageBytes publicKey of
                Inl err \<Rightarrow> Some False
              | Inr valid \<Rightarrow> Some valid))"

text \<open>\<open>signCallbackResponse\<close> has no \<open>try\<close>: what the library throws reaches the caller.\<close>

definition signCallbackResponse ::
  "ed25519 \<Rightarrow> jsstring \<Rightarrow> jsstring \<Rightarrow> jsstring \<Rightarrow> (js_error + jsstring) option" where
  "signCallbackResponse ed eventTs plainToken botSecret =
     (let message = eventTs @ plainToken;
          messageBytes = TextEncoder_encode message
      in case getPrivateKey botSecret of
           None \<Rightarrow> None
         | Some privateKey \<Rightarrow>
             (case ed_sign ed messageBytes privateKey of
                Inl err \<Rightarrow> Some (Inl err)
              | Inr signature \<Rightarrow> Some (Inr (bytesToHex signature))))"

section \<open>webhook/server.ts\<close>

text \<open>
  The listener's configuration. The handler's callbacks are effects, not
  fields.
\<close>

record WebhookServerConfig =
  config_port :: int
  config_host :: "string option"
  config_path :: "string option"
  server_appSecret :: jsstring

text \<open>
  What the server reads of a request: the method, the path of the URL and the
  two signature headers. The body arrives beside it, with what
  \<open>JSON.parse\<close> makes of it.
\<close>

record IncomingMessage =
  req_method :: string
  req_pathname :: string
  x_signature_ed25519 :: "jsstring option"
  x_signature_timestamp :: "jsstring option"

text \<open>
  The field \<open>d\<close> of a callback body, as far as the server looks into it: an
  object with or without the two strings of a validation request.
\<close>

record URLValidationPayload =
  plain_token :: "jsstring option"
  event_ts :: "jsstring option"

text \<open>
  A parsed body. Each field is \<open>None\<close> when the body does not have it;
  \<open>wp_d\<close> is also \<open>None\<close> when it is \<open>null\<close>.
\<close>

record WebhookPayload =
  wp_op :: "int option"
  wp_d :: "URLValidationPayload option"
  wp_t :: "string option"
  wp_id :: "string option"

text \<open>
  The result of \<open>JSON.parse(body)\<close>: a syntax error, the value \<open>null\<close>, or
  a value whose properties can be read.
\<close>

datatype parsed_body = NotJson | JsonNull | Json WebhookPayload

datatype response_body =
    ErrorBody string
  | MessageOk
  | ValidationResponse jsstring jsstring

record ServerResponse =
  res_status :: nat
  res_body :: response_body

text \<open>The call that \<open>handleDispatch\<close> hands to \<open>setImmediate\<close>.\<close>

datatype deferred = HandleEvent string "URLValidationPayload option"

definition truthy :: "'a list option \<Rightarrow> bool" where
  "truthy v = (case v of None \<Rightarrow> False | Some str \<Rightarrow> str \<noteq> [])"

text \<open>
  A handler's run: it does not return (\<open>None\<close>), it throws (\<open>Inl\<close>), or it
  has written its response and queued its deferred calls (\<open>Inr\<close>).
\<close>

type_synonym handled = "(js_error + ServerResponse \<times> deferred list) option"

definition handleURLValidation ::
  "ed25519 \<Rightarrow> WebhookServerConfig \<Rightarrow> WebhookPayload \<Rightarrow> handled" where
  "handleURLValidation ed config payload =
     (case wp_d payload of
        None \<Rightarrow> Some (Inl TypeError)
      | Some data \<Rightarrow>
          (case (plain_token data, event_ts data) of
             (Some plainToken, Some eventTs) \<Rightarrow>
               if plainToken = [] \<or> eventTs = []
               then Some (Inr (\<lparr>res_status = 400,
                                 res_body = ErrorBody ''Missing plain_token or event_ts''\<rparr>, []))
               else
                 (case signCallbackResponse ed eventTs plainToken (server_appSecret config) of
                    None \<Rightarrow> None
                  | Some (Inl err) \<Rightarrow> Some (Inl err)
                  | Some (Inr signature) \<Rightarrow>
                      Some (Inr (\<lparr>res_status = 200,
                                   res_body = ValidationResponse plainToken signature\<rparr>, [])))
           | _ \<Rightarrow>
               Some (Inr (\<lparr>res_status = 400,
                            res_body = ErrorBody ''Missing plain_token or event_ts''\<rparr>, []))))"

definition handleDispatch_webhook :: "WebhookPayload \<Rightarrow> handled" where
  "handleDispatch_webhook payload =
     (case wp_t payload of
        None \<Rightarrow> Some (Inr (\<lparr>res_status = 200, res_body = MessageOk\<rparr>, []))
      | Some eventType \<Rightarrow>
          if eventType = [] then Some (Inr (\<lparr>res_status = 200, res_body = MessageOk\<rparr>, []))
          else Some (Inr (\<lparr>res_status = 200, res_body = MessageOk\<rparr>,
                          [HandleEvent eventType (wp_d payload)])))"

text \<open>The \<open>try\<close> block of \<open>processRequest\<close>.\<close>

definition processRequest_try ::
  "ed25519 \<Rightarrow> WebhookServerConfig \<Rightarrow> IncomingMessage \<Rightarrow> jsstring \<Rightarrow> parsed_body \<Rightarrow> handled" where
  "processRequest_try ed config req body parsed =
     (let signature = x_signature_ed25519 req;
          timestamp = x_signature_timestamp req
      in case parsed of
           NotJson \<Rightarrow> Some (Inr (\<lparr>res_status = 400, res_body = ErrorBody ''Invalid JSON''\<rparr>, []))
         | JsonNull \<Rightarrow> Some (Inl TypeError)
         | Json payload \<Rightarrow>
             if wp_op payload = Some 13 then handleURLValidation ed config payload
             else
               (case (if truthy signature \<and> truthy timestamp
                      then verifySignature ed (case signature of Some str \<Rightarrow> str | None \<Rightarrow> [])
                             (case timestamp of Some str \<Rightarrow> str | None \<Rightarrow> [])
                             body (server_appSecret config)
                      else Some True) of
                  None \<Rightarrow> None
                | Some False \<Rightarrow>
                    Some (Inr (\<lparr>res_status = 401, res_body = ErrorBody ''Invalid signature''\<rparr>, []))
                | Some True \<Rightarrow>
                    if wp_op payload = Some 0 then handleDispatch_webhook payload
                    else Some (Inr (\<lparr>res_status = 200, res_body = MessageOk\<rparr>, []))))"

text \<open>Whatever the block throws is answered with 500.\<close>

definition processRequest ::
  "ed25519 \<Rightarrow> WebhookServerConfig \<Rightarrow> IncomingMessage \<Rightarrow> jsstring \<Rightarrow> parsed_body
     \<Rightarrow> (ServerResponse \<times> deferred list) option" where
  "processRequest ed config req body parsed =
     (case processRequest_try ed config req body parsed of
        None \<Rightarrow> None
      | Some (Inl err) \<Rightarrow>
          Some (\<lparr>res_status = 500, res_body = ErrorBody ''Internal server error''\<rparr>, [])
      | Some (Inr done) \<Rightarrow> Some done)"

definition handleRequest ::
  "ed25519 \<Rightarrow> WebhookServerConfig \<Rightarrow> IncomingMessage \<Rightarrow> jsstring \<Rightarrow> parsed_body \<Rightarrow> string
     \<Rightarrow> (ServerResponse \<times> deferred list) option" where
  "handleRequest ed config req body parsed expectedPath =
     (if req_method req \<noteq> ''POST'' \<or> req_pathname req \<noteq> expectedPath
      then Some (\<lparr>res_status = 404, res_body = ErrorBody ''Not found''\<rparr>, [])
      else processRequest ed config req body parsed)"

text \<open>The path the server in \<open>start\<close> listens on.\<close>

definition webhook_path :: "WebhookServerConfig \<Rightarrow> string" where
  "webhook_path config =
     (case config_path config of None \<Rightarrow> ''/webhook'' | Some p \<Rightarrow> if p = [] then ''/webhook'' else p)"

section \<open>api/client.ts\<close>

text \<open>
  Times are \<open>Date.now()\<close> values, milliseconds as integers. What \<open>fetch\<close>
  and the reading of the response body give is the environment's answer: the
  network call fails, the status is not \<open>ok\<close>, the body is not JSON, or the
  body is the expected object.
\<close>

datatype 'a fetch_result =
    NetworkFailure
  | HttpError nat string
  | BodyNotJson
  | HttpOk 'a

record TokenResponse =
  access_token :: string
  expires_in :: int
  token_type :: string

record session_start_limit =
  total_limit :: int
  remaining :: int
  reset_after :: int
  max_concurrency :: int

text \<open>
  \<open>start\<close> tests \<open>gateway.session_start_limit\<close> before it reads it, so the
  field may be absent.
\<close>

record GatewayResponse =
  gateway_url :: string
  gateway_shards :: int
  session_start_limit :: "session_start_limit option"

text \<open>
  A request that \<open>fetch\<close> sends: the POST to the token endpoint with its
  URL and the \<open>appId\<close> and \<open>clientSecret\<close> of its body, or a call of the
  API with its method, URL and \<open>Authorization\<close> header.
\<close>

datatype http_request =
    PostToken string string string
  | ApiCall string string string

definition TOKEN_ENDPOINT :: string where
  "TOKEN_ENDPOINT = ''https://bots.qq.com/app/getAppAccessToken''"

definition PRODUCTION_API_BASE :: string where
  "PRODUCTION_API_BASE = ''https://api.sgroup.qq.com''"

definition SANDBOX_API_BASE :: string where
  "SANDBOX_API_BASE = ''https://sandbox.api.sgroup.qq.com''"

record QQClientConfig =
  config_appId :: string
  config_appSecret :: string
  config_sandbox :: "bool option"

record QQApiClient =
  appId :: string
  appSecret :: string
  baseUrl :: string
  accessToken :: "string option"
  tokenExpiresAt :: int

definition new_QQApiClient :: "QQClientConfig \<Rightarrow> QQApiClient" where
  "new_QQApiClient config =
     \<lparr>appId = config_appId config,
      appSecret = config_appSecret config,
      baseUrl = (if config_sandbox config = Some True then SANDBOX_API_BASE
                 else PRODUCTION_API_BASE),
      accessToken = None,
      tokenExpiresAt = 0\<rparr>"

text \<open>
  \<open>getAccessToken\<close> suspends once, at \<open>await fetch\<close>. Its first part runs
  when it is called: it reads the clock and the cache and either returns the
  cached token (\<open>Inl\<close>) or sends the request (\<open>Inr\<close>). The empty string is
  falsy, so an empty cached token counts as none.
\<close>

definition getAccessToken_begin ::
  "QQApiClient \<Rightarrow> bool \<Rightarrow> int \<Rightarrow> string + http_request" where
  "getAccessToken_begin c forceRefresh now =
     (case accessToken c of
        Some token \<Rightarrow>
          if \<not> forceRefresh \<and> token \<noteq> [] \<and> tokenExpiresAt c > now + 60 * 1000
          then Inl token
          else Inr (PostToken TOKEN_ENDPOINT (appId c) (appSecret c))
      | None \<Rightarrow> Inr (PostToken TOKEN_ENDPOINT (appId c) (appSecret c)))"

text \<open>
  Its second part runs when the answer arrives, on the client as it is then,
  with the \<open>now\<close> read by the first part.
\<close>

definition getAccessToken_resume ::
  "QQApiClient \<Rightarrow> int \<Rightarrow> TokenResponse fetch_result \<Rightarrow> (js_error + string) \<times> QQApiClient" where
  "getAccessToken_resume c now reply =
     (case reply of
        NetworkFailure \<Rightarrow> (Inl FetchFailed, c)
      | HttpError status text \<Rightarrow> (Inl (AccessTokenFailed status text), c)
      | BodyNotJson \<Rightarrow> (Inl InvalidJson, c)
      | HttpOk data \<Rightarrow>
          (Inr (access_token data),
           c\<lparr>accessToken := Some (access_token data),
             tokenExpiresAt := now + expires_in data * 1000\<rparr>))"

text \<open>
  One call with nothing running in between: the result, the client afterwards
  and the requests sent.
\<close>

definition getAccessToken ::
  "QQApiClient \<Rightarrow> bool \<Rightarrow> int \<Rightarrow> TokenResponse fetch_result
     \<Rightarrow> (js_error + string) \<times> QQApiClient \<times> http_request list" where
  "getAccessToken c forceRefresh now reply =
     (case getAccessToken_begin c forceRefresh now of
        Inl token \<Rightarrow> (Inr token, c, [])
      | Inr req \<Rightarrow>
          (case getAccessToken_resume c now reply of
             (result, c') \<Rightarrow> (result, c', [req])))"

text \<open>
  Two calls of which the second is made while the first waits for its answer:
  both first parts run on the same client, then the answers are handled, the
  first caller's first.
\<close>

definition getAccessToken_twice ::
  "QQApiClient \<Rightarrow> int \<Rightarrow> int \<Rightarrow> TokenResponse fetch_result \<Rightarrow> TokenResponse fetch_result
     \<Rightarrow> (js_error + string) \<times> (js_error + string) \<times> QQApiClient \<times> http_request list" where
  "getAccessToken_twice c now1 now2 reply1 reply2 =
     (let first = getAccessToken_begin c False now1;
          second = getAccessToken_begin c False now2;
          (result1, c1, sent1) =
            (case first of
               Inl token \<Rightarrow> (Inr token, c, [])
             | Inr req \<Rightarrow>
                 (case getAccessToken_resume c now1 reply1 of (res, c') \<Rightarrow> (res, c', [req])));
          (result2, c2, sent2) =
            (case second of
               Inl token \<Rightarrow> (Inr token, c1, [])
             | Inr req \<Rightarrow>
                 (case getAccessToken_resume c1 now2 reply2 of (res, c') \<Rightarrow> (res, c', [req])))
      in (result1, result2, c2, sent1 @ sent2))"

text \<open>\<open>request\<close>, as \<open>getGateway\<close> uses it: a token first, then the call itself.\<close>

definition request ::
  "QQApiClient \<Rightarrow> string \<Rightarrow> string \<Rightarrow> int \<Rightarrow> TokenResponse fetch_result \<Rightarrow> 'a fetch_result
     \<Rightarrow> (js_error + 'a) \<times> QQApiClient \<times> http_request list" where
  "request c method path now tokenReply reply =
     (case getAccessToken c False now tokenReply of
        (Inl err, c', sent) \<Rightarrow> (Inl err, c', sent)
      | (Inr token, c', sent) \<Rightarrow>
          ((case reply of
              NetworkFailure \<Rightarrow> Inl FetchFailed
            | HttpError status text \<Rightarrow> Inl (ApiRequestFailed status text)
            | BodyNotJson \<Rightarrow> Inl InvalidJson
            | HttpOk body \<Rightarrow> Inr body),
           c', sent @ [ApiCall method (baseUrl c' @ path) (''QQBot '' @ token)]))"

definition getGateway ::
  "QQApiClient \<Rightarrow> int \<Rightarrow> TokenResponse fetch_result \<Rightarrow> GatewayResponse fetch_result
     \<Rightarrow> (js_error + GatewayResponse) \<times> QQApiClient \<times> http_request list" where
  "getGateway c now tokenReply reply = request c ''GET'' ''/gateway/bot'' now tokenReply reply"

section \<open>types.ts\<close>

record User =
  user_id :: string
  username :: string
  avatar :: "string option"
  bot :: bool

type_synonym BotUser = User
type_synonym MessageAuthor = User

record GuildMember =
  joined_at :: string
  roles :: "string list"
  nick :: "string option"

record MessagePayload =
  message_id :: string
  channel_id :: string
  guild_id :: string
  message_content :: string
  message_timestamp :: string
  message_author :: MessageAuthor
  message_member :: "GuildMember option"
  message_seq :: "int option"
  seq_in_channel :: "string option"

record HelloPayload =
  heartbeat_interval :: int

record IdentifyPayload =
  identify_token :: string
  identify_intents :: "32 word"
  identify_shard :: "int \<times> int"
  identify_properties :: "string \<times> string \<times> string"

record ReadyPayload =
  ready_version :: int
  session_id :: string
  ready_user :: BotUser
  ready_shard :: "int \<times> int"

text \<open>
  The field \<open>d\<close> of a frame has the type \<open>unknown\<close> and is cast by each
  handler without a test. The shapes are those the protocol sends.
  \<open>NoData\<close> is a \<open>d\<close> that is \<open>null\<close> or absent: reading a property
  of it throws. On every other shape a property it does not have reads as
  \<open>undefined\<close> and nothing is thrown; a handler that casts to another
  shape goes on with that.
\<close>

datatype payload_data =
    NoData
  | Hello HelloPayload
  | Ready ReadyPayload
  | MessageEvent MessagePayload
  | Identify IdentifyPayload
  | Sequence int

record WSPayload =
  payload_op :: int
  payload_d :: payload_data
  payload_s :: "int option"
  payload_t :: "string option"

definition OpCode_Dispatch :: int where "OpCode_Dispatch = 0"
definition OpCode_Heartbeat :: int where "OpCode_Heartbeat = 1"
definition OpCode_Identify :: int where "OpCode_Identify = 2"
definition OpCode_Resume :: int where "OpCode_Resume = 6"
definition OpCode_Reconnect :: int where "OpCode_Reconnect = 7"
definition OpCode_InvalidSession :: int where "OpCode_InvalidSession = 9"
definition OpCode_Hello :: int where "OpCode_Hello = 10"
definition OpCode_HeartbeatAck :: int where "OpCode_HeartbeatAck = 11"

definition Intents_GUILDS :: "32 word" where "Intents_GUILDS = push_bit 0 1"
definition Intents_GUILD_MEMBERS :: "32 word" where "Intents_GUILD_MEMBERS = push_bit 1 1"
definition Intents_GUILD_MESSAGES :: "32 word" where "Intents_GUILD_MESSAGES = push_bit 9 1"
definition Intents_DIRECT_MESSAGE :: "32 word" where "Intents_DIRECT_MESSAGE = push_bit 12 1"

section \<open>runtime.ts, the transport with close codes and session quota\<close>

text \<open>
  The repository holds two versions of the socket transport. This section is
  the one that classifies close codes, checks the session quota and backs off
  exponentially; the older one is the last section of the definitions.

  What a handler does to the outside is the list of its effects, in order.
  The two timers the transport sets with \<open>setTimeout\<close> are named after what
  their callbacks do.
\<close>

datatype readyState = CONNECTING | OPEN | CLOSING | CLOSED

record WebSocket =
  ws_url :: string
  ws_readyState :: readyState

datatype timer_callback = ReconnectTimer | InvalidSessionTimer

datatype effect =
    OnError js_error
  | OnReady string BotUser
  | OnMessage payload_data bool
  | NewWebSocket string
  | WsClose
  | WsSend WSPayload
  | SetInterval "int option"
  | ClearInterval
  | SetTimeout int timer_callback
  | Fetch http_request

text \<open>
  The fields of the class. \<open>heartbeatInterval\<close> holds the running
  timer, which is the interval \<open>setInterval\<close> was given: \<open>None\<close> when that
  was \<open>undefined\<close>. \<open>maxReconnectAttempts\<close> and \<open>baseReconnectDelay\<close> are
  initialised and never assigned: they are constants. \<open>config\<close> holds the
  callbacks, which are effects here, and the client, which is passed beside
  the runtime. \<open>cachedAccessToken\<close> is a variable of the module, not of the
  class: every function that reads or writes it takes it as \<open>cached\<close>.
\<close>

record QQChannelRuntime =
  ws :: "WebSocket option"
  heartbeatInterval :: "int option option"
  lastSequence :: "int option"
  sessionId :: "string option"
  reconnectAttempts :: nat
  isClosing :: bool
  isFatalError :: bool
  lastCloseCode :: "int option"

definition maxReconnectAttempts :: nat where
  "maxReconnectAttempts = 5"

definition baseReconnectDelay :: int where
  "baseReconnectDelay = 5000"

definition new_QQChannelRuntime :: QQChannelRuntime where
  "new_QQChannelRuntime =
     \<lparr>ws = None, heartbeatInterval = None, lastSequence = None, sessionId = None,
      reconnectAttempts = 0, isClosing = False, isFatalError = False,
      lastCloseCode = None\<rparr>"

definition FATAL_CLOSE_CODES :: "int list" where
  "FATAL_CLOSE_CODES = [4004, 4010, 4011, 4012, 4013, 4014, 4903]"

definition stopHeartbeat :: "QQChannelRuntime \<Rightarrow> QQChannelRuntime \<times> effect list" where
  "stopHeartbeat r =
     (case heartbeatInterval r of
        Some timer \<Rightarrow> (r\<lparr>heartbeatInterval := None\<rparr>, [ClearInterval])
      | None \<Rightarrow> (r, []))"

definition startHeartbeat ::
  "QQChannelRuntime \<Rightarrow> int option \<Rightarrow> QQChannelRuntime \<times> effect list" where
  "startHeartbeat r interval =
     (case stopHeartbeat r of
        (r1, e1) \<Rightarrow> (r1\<lparr>heartbeatInterval := Some interval\<rparr>, e1 @ [SetInterval interval]))"

definition send :: "QQChannelRuntime \<Rightarrow> WSPayload \<Rightarrow> effect list" where
  "send r payload =
     (case ws r of
        Some socket \<Rightarrow> if ws_readyState socket = OPEN then [WsSend payload] else []
      | None \<Rightarrow> [])"

text \<open>The callback of the heartbeat timer.\<close>

definition heartbeat_tick :: "QQChannelRuntime \<Rightarrow> effect list" where
  "heartbeat_tick r =
     send r \<lparr>payload_op = OpCode_Heartbeat,
             payload_d = (case lastSequence r of None \<Rightarrow> NoData | Some s \<Rightarrow> Sequence s),
             payload_s = None, payload_t = None\<rparr>"

text \<open>The template \<open>`QQBot ${cachedAccessToken}`\<close> prints \<open>null\<close> as the word.\<close>

definition sendIdentify :: "string option \<Rightarrow> QQChannelRuntime \<Rightarrow> effect list" where
  "sendIdentify cached r =
     (let intents = Intents_GUILDS OR Intents_GUILD_MEMBERS OR Intents_GUILD_MESSAGES
                      OR Intents_DIRECT_MESSAGE;
          token = ''QQBot '' @ (case cached of None \<Rightarrow> ''null'' | Some t \<Rightarrow> t)
      in send r
           \<lparr>payload_op = OpCode_Identify,
            payload_d = Identify
              \<lparr>identify_token = token, identify_intents = intents, identify_shard = (0, 1),
               identify_properties =
                 (''linux'', ''clawdbot-qq-channel'', ''clawdbot-qq-channel'')\<rparr>,
            payload_s = None, payload_t = None\<rparr>)"

text \<open>
  The handlers below return what they threw, if anything, with the state and
  the effects up to there.

  \<open>handleHello\<close> reads \<open>data.heartbeat_interval\<close> first. On a \<open>d\<close> of
  another shape that is \<open>undefined\<close>: the timer is set with it and Identify
  is sent all the same.
\<close>

definition handleHello ::
  "string option \<Rightarrow> QQChannelRuntime \<Rightarrow> payload_data
     \<Rightarrow> js_error option \<times> QQChannelRuntime \<times> effect list" where
  "handleHello cached r d =
     (case d of
        NoData \<Rightarrow> (Some TypeError, r, [])
      | _ \<Rightarrow>
          (case startHeartbeat r
                  (case d of Hello data \<Rightarrow> Some (heartbeat_interval data) | _ \<Rightarrow> None) of
             (r1, e1) \<Rightarrow> (None, r1, e1 @ sendIdentify cached r1)))"

text \<open>
  \<open>handleReady\<close> assigns \<open>sessionId\<close> and \<open>reconnectAttempts\<close> before it
  reads \<open>data.user.username\<close>. On a \<open>d\<close> of another shape both
  assignments are made, \<open>sessionId\<close> with \<open>undefined\<close>, and then
  \<open>data.user\<close> is \<open>undefined\<close> and reading its \<open>username\<close> throws.
\<close>

definition handleReady ::
  "QQChannelRuntime \<Rightarrow> payload_data \<Rightarrow> js_error option \<times> QQChannelRuntime \<times> effect list" where
  "handleReady r d =
     (case d of
        NoData \<Rightarrow> (Some TypeError, r, [])
      | Ready data \<Rightarrow>
          (None, r\<lparr>sessionId := Some (session_id data), reconnectAttempts := 0\<rparr>,
           [OnReady (session_id data) (ready_user data)])
      | _ \<Rightarrow> (Some TypeError, r\<lparr>sessionId := None, reconnectAttempts := 0\<rparr>, []))"

definition handleDispatch ::
  "QQChannelRuntime \<Rightarrow> string option \<Rightarrow> payload_data
     \<Rightarrow> js_error option \<times> QQChannelRuntime \<times> effect list" where
  "handleDispatch r eventType d =
     (if eventType = Some ''READY'' then handleReady r d
      else if eventType = Some ''AT_MESSAGE_CREATE'' then (None, r, [OnMessage d False])
      else if eventType = Some ''DIRECT_MESSAGE_CREATE'' then (None, r, [OnMessage d True])
      else if eventType = Some ''RESUMED'' then (None, r, [])
      else (None, r, []))"

definition scheduleReconnect :: "QQChannelRuntime \<Rightarrow> QQChannelRuntime \<times> effect list" where
  "scheduleReconnect r =
     (if isClosing r \<or> isFatalError r then (r, [])
      else if reconnectAttempts r \<ge> maxReconnectAttempts
      then (r, [OnError MaxReconnectAttemptsReached])
      else
        (let r1 = r\<lparr>reconnectAttempts := reconnectAttempts r + 1\<rparr>;
             delay = baseReconnectDelay * 2 ^ (reconnectAttempts r1 - 1);
             cappedDelay = min delay 300000
         in (r1, [SetTimeout cappedDelay ReconnectTimer])))"

text \<open>
  \<open>reconnect\<close> is \<open>async\<close> and nobody awaits it. Its first part runs in the
  handler that calls it, up to \<open>await getAccessToken(true)\<close>, whose own first
  part sends the token request.
\<close>

definition reconnect_begin ::
  "int \<Rightarrow> QQApiClient \<Rightarrow> QQChannelRuntime \<Rightarrow> QQChannelRuntime \<times> effect list" where
  "reconnect_begin now c r =
     (case stopHeartbeat r of
        (r1, e1) \<Rightarrow>
          (let (r2, e2) = (case ws r1 of
                             Some socket \<Rightarrow> (r1\<lparr>ws := None\<rparr>, [WsClose])
                           | None \<Rightarrow> (r1, []))
           in (r2, e1 @ e2 @
                 (case getAccessToken_begin c True now of
                    Inl token \<Rightarrow> []
                  | Inr req \<Rightarrow> [Fetch req]))))"

text \<open>The callbacks of the two timers.\<close>

definition reconnect_timer ::
  "int \<Rightarrow> QQApiClient \<Rightarrow> QQChannelRuntime \<Rightarrow> QQChannelRuntime \<times> effect list" where
  "reconnect_timer now c r =
     (if \<not> isClosing r \<and> \<not> isFatalError r then reconnect_begin now c r else (r, []))"

definition invalid_session_timer :: "QQChannelRuntime \<Rightarrow> QQChannelRuntime \<times> effect list" where
  "invalid_session_timer r =
     (if \<not> isClosing r \<and> \<not> isFatalError r then scheduleReconnect r else (r, []))"

definition handlePayload ::
  "int \<Rightarrow> string option \<Rightarrow> QQApiClient \<Rightarrow> QQChannelRuntime \<Rightarrow> WSPayload
     \<Rightarrow> js_error option \<times> QQChannelRuntime \<times> effect list" where
  "handlePayload now cached c r payload =
     (let r1 = (case payload_s payload of
                  Some s \<Rightarrow> r\<lparr>lastSequence := Some s\<rparr>
                | None \<Rightarrow> r)
      in if payload_op payload = OpCode_Hello then handleHello cached r1 (payload_d payload)
         else if payload_op payload = OpCode_Dispatch
         then handleDispatch r1 (payload_t payload) (payload_d payload)
         else if payload_op payload = OpCode_HeartbeatAck then (None, r1, [])
         else if payload_op payload = OpCode_Reconnect
         then (case reconnect_begin now c r1 of (r2, e) \<Rightarrow> (None, r2, e))
         else if payload_op payload = OpCode_InvalidSession
         then (None, r1\<lparr>sessionId := None\<rparr>, [SetTimeout 1000 InvalidSessionTimer])
         else (None, r1, []))"

text \<open>
  The handlers that \<open>setupWebSocketHandlers\<close> attaches to the socket. A
  message that is not JSON (\<open>None\<close>) and whatever \<open>handlePayload\<close> throws are
  logged and dropped. The socket is \<open>OPEN\<close> when \<open>open\<close> is emitted.
\<close>

definition on_open :: "QQChannelRuntime \<Rightarrow> QQChannelRuntime \<times> effect list" where
  "on_open r =
     (case ws r of
        Some socket \<Rightarrow> (r\<lparr>ws := Some (socket\<lparr>ws_readyState := OPEN\<rparr>)\<rparr>, [])
      | None \<Rightarrow> (r, []))"

definition on_message ::
  "int \<Rightarrow> string option \<Rightarrow> QQApiClient \<Rightarrow> QQChannelRuntime \<Rightarrow> WSPayload option
     \<Rightarrow> QQChannelRuntime \<times> effect list" where
  "on_message now cached c r parsed =
     (case parsed of
        None \<Rightarrow> (r, [])
      | Some payload \<Rightarrow>
          (case handlePayload now cached c r payload of (thrown, r1, e) \<Rightarrow> (r1, e)))"

definition on_close :: "QQChannelRuntime \<Rightarrow> int \<Rightarrow> string \<Rightarrow> QQChannelRuntime \<times> effect list" where
  "on_close r code reason =
     (case stopHeartbeat r of
        (r1, e1) \<Rightarrow>
          (let r2 = r1\<lparr>lastCloseCode := Some code\<rparr>
           in if code \<in> set FATAL_CLOSE_CODES
              then (r2\<lparr>isFatalError := True\<rparr>, e1 @ [OnError (FatalWebSocketError code reason)])
              else if \<not> isClosing r2 \<and> \<not> isFatalError r2
              then (case scheduleReconnect r2 of (r3, e3) \<Rightarrow> (r3, e1 @ e3))
              else (r2, e1)))"

definition on_error :: "QQChannelRuntime \<Rightarrow> js_error \<Rightarrow> QQChannelRuntime \<times> effect list" where
  "on_error r err = (r, [OnError err])"

subsection \<open>start, stop and the second part of reconnect\<close>

text \<open>
  \<open>start\<close> awaits the token and the gateway. What the environment answers
  while it runs: the clock at each reading, the answer to each request that
  is sent, and what \<open>new WebSocket\<close> throws, if anything. The function is
  one run of \<open>start\<close> from its call to its return; callbacks of the same
  transport that the event loop would run between the two awaits are not
  interleaved with it.
\<close>

record start_env =
  now_token :: int
  token_reply :: "TokenResponse fetch_result"
  now_gateway :: int
  gateway_token_reply :: "TokenResponse fetch_result"
  gateway_reply :: "GatewayResponse fetch_result"
  now_quota :: int
  socket_throws :: "js_error option"

text \<open>The \<open>catch\<close> block of \<open>start\<close>.\<close>

definition start_catch ::
  "js_error \<Rightarrow> QQChannelRuntime \<Rightarrow> QQChannelRuntime \<times> effect list" where
  "start_catch err r =
     (case scheduleReconnect r of (r1, e) \<Rightarrow> (r1, OnError err # e))"

text \<open>The end of the \<open>try\<close> block: the socket is created and its handlers attached.\<close>

definition start_connect ::
  "start_env \<Rightarrow> GatewayResponse \<Rightarrow> QQChannelRuntime \<Rightarrow> QQChannelRuntime \<times> effect list" where
  "start_connect env gateway r =
     (case socket_throws env of
        Some err \<Rightarrow> start_catch err r
      | None \<Rightarrow>
          (r\<lparr>ws := Some \<lparr>ws_url = gateway_url gateway, ws_readyState = CONNECTING\<rparr>\<rparr>,
           [NewWebSocket (gateway_url gateway)]))"

text \<open>The part of the \<open>try\<close> block after the gateway has answered.\<close>

definition start_check_quota ::
  "start_env \<Rightarrow> GatewayResponse \<Rightarrow> QQChannelRuntime \<Rightarrow> QQChannelRuntime \<times> effect list" where
  "start_check_quota env gateway r =
     (case session_start_limit gateway of
        Some limit \<Rightarrow>
          if remaining limit = 0
          then (r\<lparr>isFatalError := True\<rparr>,
                [OnError (SessionQuotaExhausted (now_quota env + reset_after limit))])
          else start_connect env gateway r
      | None \<Rightarrow> start_connect env gateway r)"

definition start ::
  "start_env \<Rightarrow> string option \<Rightarrow> QQApiClient \<Rightarrow> QQChannelRuntime
     \<Rightarrow> string option \<times> QQApiClient \<times> QQChannelRuntime \<times> effect list" where
  "start env cached c r =
     (let r0 = (if reconnectAttempts r = 0 then r\<lparr>isFatalError := False\<rparr> else r)
      in case getAccessToken c False (now_token env) (token_reply env) of
           (Inl err, c1, sent1) \<Rightarrow>
             (case start_catch err r0 of
                (r1, e) \<Rightarrow> (cached, c1, r1, map Fetch sent1 @ e))
         | (Inr token, c1, sent1) \<Rightarrow>
             (case getGateway c1 (now_gateway env) (gateway_token_reply env) (gateway_reply env) of
                (Inl err, c2, sent2) \<Rightarrow>
                  (case start_catch err r0 of
                     (r1, e) \<Rightarrow> (Some token, c2, r1, map Fetch (sent1 @ sent2) @ e))
              | (Inr gateway, c2, sent2) \<Rightarrow>
                  (case start_check_quota env gateway r0 of
                     (r1, e) \<Rightarrow> (Some token, c2, r1, map Fetch (sent1 @ sent2) @ e))))"

definition stop :: "QQChannelRuntime \<Rightarrow> QQChannelRuntime \<times> effect list" where
  "stop r =
     (case stopHeartbeat (r\<lparr>isClosing := True\<rparr>) of
        (r1, e1) \<Rightarrow>
          (let (r2, e2) = (case ws r1 of
                             Some socket \<Rightarrow> (r1\<lparr>ws := None\<rparr>, [WsClose])
                           | None \<Rightarrow> (r1, []))
           in (r2\<lparr>sessionId := None, lastSequence := None, reconnectAttempts := 0\<rparr>, e1 @ e2)))"

text \<open>
  The second part of \<open>reconnect\<close>, when the forced token request is answered:
  a token is stored in the module's variable, a failure is logged, and
  \<open>start\<close> runs either way.
\<close>

definition reconnect_resume ::
  "int \<Rightarrow> TokenResponse fetch_result \<Rightarrow> start_env \<Rightarrow> string option \<Rightarrow> QQApiClient
     \<Rightarrow> QQChannelRuntime \<Rightarrow> string option \<times> QQApiClient \<times> QQChannelRuntime \<times> effect list" where
  "reconnect_resume now reply env cached c r =
     (case getAccessToken_resume c now reply of
        (Inr token, c1) \<Rightarrow> start env (Some token) c1 r
      | (Inl err, c1) \<Rightarrow> start env cached c1 r)"

subsection \<open>The callbacks as events\<close>

text \<open>
  The callbacks that the socket and the timers invoke on a running transport,
  each with what it needs from outside: a message comes with the clock and
  with what \<open>JSON.parse\<close> makes of it, the reconnect timer with the clock.
  None of them writes the module's token or the client.
\<close>

datatype event =
    EvOpen
  | EvMessage int "WSPayload option"
  | EvClose int string
  | EvError js_error
  | EvHeartbeat
  | EvReconnectTimer int
  | EvInvalidSessionTimer

definition handle_event ::
  "string option \<Rightarrow> QQApiClient \<Rightarrow> QQChannelRuntime \<Rightarrow> event
     \<Rightarrow> QQChannelRuntime \<times> effect list" where
  "handle_event cached c r ev =
     (case ev of
        EvOpen \<Rightarrow> on_open r
      | EvMessage now parsed \<Rightarrow> on_message now cached c r parsed
      | EvClose code reason \<Rightarrow> on_close r code reason
      | EvError err \<Rightarrow> on_error r err
      | EvHeartbeat \<Rightarrow> (r, heartbeat_tick r)
      | EvReconnectTimer now \<Rightarrow> reconnect_timer now c r
      | EvInvalidSessionTimer \<Rightarrow> invalid_session_timer r)"


definition isMessage :: "event \<Rightarrow> bool" where
  "isMessage ev = (case ev of EvMessage now parsed \<Rightarrow> True | _ \<Rightarrow> False)"



definition isOnError :: "effect \<Rightarrow> bool" where
  "isOnError e = (case e of OnError err \<Rightarrow> True | _ \<Rightarrow> False)"

text \<open>The frames of one connection, in order: the runtime after the last of them.\<close>

definition handle_frames ::
  "int \<Rightarrow> string option \<Rightarrow> QQApiClient \<Rightarrow> QQChannelRuntime \<Rightarrow> WSPayload list
     \<Rightarrow> QQChannelRuntime" where
  "handle_frames now cached c r frames =
     foldl (\<lambda>r1 frame. fst (on_message now cached c r1 (Some frame))) r frames"

text \<open>The sequence numbers that a list of frames carries.\<close>

definition carried :: "WSPayload list \<Rightarrow> int list" where
  "carried frames = List.map_filter payload_s frames"

text \<open>\<open>null\<close> is below every number.\<close>

definition seq_le :: "int option \<Rightarrow> int option \<Rightarrow> bool" where
  "seq_le a b =
     (case a of
        None \<Rightarrow> True
      | Some m \<Rightarrow> (case b of None \<Rightarrow> False | Some n \<Rightarrow> m \<le> n))"

text \<open>The tokens of the Identify frames among the effects.\<close>

definition identify_tokens :: "effect list \<Rightarrow> string list" where
  "identify_tokens es =
     concat (map (\<lambda>e. case e of
                        WsSend payload \<Rightarrow>
                          (case payload_d payload of
                             Identify data \<Rightarrow> [identify_token data]
                           | _ \<Rightarrow> [])
                      | _ \<Rightarrow> []) es)"

section \<open>runtime.ts, the older transport\<close>

text \<open>
  The older version of the class has no \<open>isFatalError\<close> and no
  \<open>lastCloseCode\<close>; the functions below neither read nor write them. It
  differs from the newer one in \<open>start\<close>, in the handler of \<open>close\<close> and in
  \<open>scheduleReconnect\<close>, whose delay grows linearly from \<open>reconnectDelay\<close>.
\<close>

definition reconnectDelay :: int where
  "reconnectDelay = 5000"

definition scheduleReconnect_old :: "QQChannelRuntime \<Rightarrow> QQChannelRuntime \<times> effect list" where
  "scheduleReconnect_old r =
     (if isClosing r then (r, [])
      else if reconnectAttempts r \<ge> maxReconnectAttempts
      then (r, [OnError MaxReconnectAttemptsReached])
      else
        (let r1 = r\<lparr>reconnectAttempts := reconnectAttempts r + 1\<rparr>;
             delay = reconnectDelay * int (reconnectAttempts r1)
         in (r1, [SetTimeout delay ReconnectTimer])))"

definition on_close_old ::
  "QQChannelRuntime \<Rightarrow> int \<Rightarrow> string \<Rightarrow> QQChannelRuntime \<times> effect list" where
  "on_close_old r code reason =
     (case stopHeartbeat r of
        (r1, e1) \<Rightarrow>
          if \<not> isClosing r1
          then (case scheduleReconnect_old r1 of (r2, e2) \<Rightarrow> (r2, e1 @ e2))
          else (r1, e1))"

definition start_catch_old ::
  "js_error \<Rightarrow> QQChannelRuntime \<Rightarrow> QQChannelRuntime \<times> effect list" where
  "start_catch_old err r =
     (case scheduleReconnect_old r of (r1, e) \<Rightarrow> (r1, OnError err # e))"

definition start_old ::
  "start_env \<Rightarrow> string option \<Rightarrow> QQApiClient \<Rightarrow> QQChannelRuntime
     \<Rightarrow> string option \<times> QQApiClient \<times> QQChannelRuntime \<times> effect list" where
  "start_old env cached c r =
     (case getAccessToken c False (now_token env) (token_reply env) of
        (Inl err, c1, sent1) \<Rightarrow>
          (case start_catch_old err r of
             (r1, e) \<Rightarrow> (cached, c1, r1, map Fetch sent1 @ e))
      | (Inr token, c1, sent1) \<Rightarrow>
          (case getGateway c1 (now_gateway env) (gateway_token_reply env) (gateway_reply env) of
             (Inl err, c2, sent2) \<Rightarrow>
               (case start_catch_old err r of
                  (r1, e) \<Rightarrow> (Some token, c2, r1, map Fetch (sent1 @ sent2) @ e))
           | (Inr gateway, c2, sent2) \<Rightarrow>
               (case socket_throws env of
                  Some err \<Rightarrow>
                    (case start_catch_old err r of
                       (r1, e) \<Rightarrow> (Some token, c2, r1, map Fetch (sent1 @ sent2) @ e))
                | None \<Rightarrow>
                    (Some token, c2,
                     r\<lparr>ws := Some \<lparr>ws_url = gateway_url gateway,
                                    ws_readyState = CONNECTING\<rparr>\<rparr>,
                     map Fetch (sent1 @ sent2) @ [NewWebSocket (gateway_url gateway)]))))"

section \<open>Properties of webhook/signature.ts\<close>

lemma deriveSeed_loop_nonempty: "deriveSeed_loop s = Some t \<Longrightarrow> s \<noteq> []"
  by (rule deriveSeed_loop.raw_induct [where P = "\<lambda>s t. s \<noteq> []"])
     (auto split: if_splits)

lemma deriveSeed_loop_empty: "deriveSeed_loop [] = None"
  using deriveSeed_loop_nonempty [of "[]"] by (cases "deriveSeed_loop []") auto

lemma deriveSeed_loop_returns: "s \<noteq> [] \<Longrightarrow> \<exists>t. deriveSeed_loop s = Some t"
proof (induction "32 - length s" arbitrary: s rule: less_induct)
  case less
  show ?case
  proof (cases "length s < 32")
    case True
    have "32 - length (s @ s) < 32 - length s"
      using True less.prems by (cases s) auto
    from less.hyps [OF this] less.prems
    obtain t where "deriveSeed_loop (s @ s) = Some t" by auto
    then show ?thesis using True by (subst deriveSeed_loop.simps) simp
  next
    case False
    then show ?thesis by (subst deriveSeed_loop.simps) simp
  qed
qed

lemma ascii_not_surrogate:
  fixes u :: "16 word"
  shows "u < 0x80 \<Longrightarrow> \<not> isHighSurrogate u \<and> \<not> isLowSurrogate u"
  by (auto simp: isHighSurrogate_def isLowSurrogate_def word_less_nat_alt word_le_nat_alt)

lemma utf8_of_code_unit_ascii:
  fixes u :: "16 word"
  shows "u < 0x80 \<Longrightarrow> utf8_of_code_unit u = [ucast u]"
  by (simp add: utf8_of_code_unit_def utf8_of_code_point_def ascii_not_surrogate
      word_less_nat_alt)

lemma TextEncoder_encode_ascii:
  "list_all (\<lambda>u. u < 0x80) s \<Longrightarrow> TextEncoder_encode s = map ucast s"
  by (induction s rule: TextEncoder_encode.induct)
     (simp_all add: utf8_of_code_unit_ascii ascii_not_surrogate)

lemma spec_seed_loop_ascii:
  "list_all (\<lambda>u. u < 0x80) s \<Longrightarrow> deriveSeed_loop s = Some t \<Longrightarrow> spec_seed_loop s = Some t"
proof (induction "32 - length s" arbitrary: s rule: less_induct)
  case less
  have nonempty: "s \<noteq> []" using less.prems(2) by (rule deriveSeed_loop_nonempty)
  have len: "length (TextEncoder_encode s) = length s"
    using less.prems(1) by (simp add: TextEncoder_encode_ascii)
  show ?case
  proof (cases "length s < 32")
    case True
    have m: "32 - length (s @ s) < 32 - length s"
      using True nonempty by (cases s) auto
    have "deriveSeed_loop (s @ s) = Some t"
      using less.prems(2) True by (subst (asm) deriveSeed_loop.simps) simp
    with less.hyps [OF m] less.prems(1) have "spec_seed_loop (s @ s) = Some t" by simp
    then show ?thesis using True len by (subst spec_seed_loop.simps) simp
  next
    case False
    then have "t = s" using less.prems(2) by (subst (asm) deriveSeed_loop.simps) simp
    then show ?thesis using False len by (subst spec_seed_loop.simps) simp
  qed
qed

lemma deriveSeed_loop_ascii:
  "list_all (\<lambda>u. u < 0x80) s \<Longrightarrow> deriveSeed_loop s = Some t \<Longrightarrow> list_all (\<lambda>u. u < 0x80) t"
proof (induction "32 - length s" arbitrary: s rule: less_induct)
  case less
  have nonempty: "s \<noteq> []" using less.prems(2) by (rule deriveSeed_loop_nonempty)
  show ?case
  proof (cases "length s < 32")
    case True
    have m: "32 - length (s @ s) < 32 - length s"
      using True nonempty by (cases s) auto
    have "deriveSeed_loop (s @ s) = Some t"
      using less.prems(2) True by (subst (asm) deriveSeed_loop.simps) simp
    with less.hyps [OF m] less.prems(1) show ?thesis by simp
  next
    case False
    then have "t = s" using less.prems(2) by (subst (asm) deriveSeed_loop.simps) simp
    then show ?thesis using less.prems(1) by simp
  qed
qed

text \<open>
  Where the code and the specification agree: on a non-empty secret of ASCII
  characters a code unit is a byte, and \<open>deriveSeed\<close> is the specified seed.
\<close>

lemma deriveSeed_ascii:
  assumes "s \<noteq> []" and "list_all (\<lambda>u. u < 0x80) s"
  shows "deriveSeed s = spec_seed s"
proof -
  obtain t where t: "deriveSeed_loop s = Some t"
    using deriveSeed_loop_returns [OF assms(1)] by auto
  have a: "list_all (\<lambda>u. u < 0x80) t"
    using deriveSeed_loop_ascii [OF assms(2) t] .
  have "list_all (\<lambda>u. u < 0x80) (take 32 t)"
    using a by (simp add: list_all_iff) (meson in_set_takeD)
  then show ?thesis
    using spec_seed_loop_ascii [OF assms(2) t] t a
    by (simp add: deriveSeed_def spec_seed_def TextEncoder_encode_ascii take_map)
qed

text \<open>
  Claim C1. The signing seed is the secret doubled until its UTF-8 encoding
  has at least 32 bytes, cut to the first 32 bytes of that encoding.
  \<open>deriveSeed\<close> measures both in UTF-16 code units instead. For the secret
  consisting of the one character U+00E9, two bytes in UTF-8, it doubles up to
  32 characters and returns their 64 bytes; the specified seed is the 32 bytes
  of the first 16 characters.
\<close>

theorem deriveSeed_measures_code_units:
  "deriveSeed [0xE9] = Some (concat (replicate 32 [0xC3, 0xA9]))
   \<and> spec_seed [0xE9] = Some (concat (replicate 16 [0xC3, 0xA9]))"
  by code_simp

text \<open>
  Claim C10. \<open>verifySignature\<close> returns a boolean for all four strings and
  never throws. Nothing it throws escapes, but with the empty secret the loop
  of \<open>deriveSeed\<close> doubles the empty string for ever: the call does not
  return, whatever the signature, the timestamp, the body and the library are.
\<close>

theorem verifySignature_empty_secret:
  "verifySignature ed signature timestamp body [] = None"
  by (simp add: verifySignature_def getPublicKey_def getPrivateKey_def deriveSeed_def
      deriveSeed_loop_empty)

text \<open>On every other secret it returns, and what the library throws becomes \<open>false\<close>.\<close>

lemma verifySignature_returns:
  "botSecret \<noteq> [] \<Longrightarrow> \<exists>b. verifySignature ed signature timestamp body botSecret = Some b"
  using deriveSeed_loop_returns [of botSecret]
  by (auto simp: verifySignature_def getPublicKey_def getPrivateKey_def deriveSeed_def Let_def
      split: option.splits sum.splits)

section \<open>Properties of webhook/server.ts\<close>

text \<open>
  Claim C9. A POST whose body is valid JSON with \<open>op = 13\<close> is answered with
  400 when \<open>plain_token\<close> or \<open>event_ts\<close> is missing, and otherwise with 200
  and the signed token. The body \<open>{"op": 13}\<close> has neither field, because it
  has no \<open>d\<close> at all: \<open>handleURLValidation\<close> reads \<open>data.plain_token\<close> of
  \<open>undefined\<close>, the \<open>TypeError\<close> is caught by \<open>processRequest\<close>, and the
  answer is 500, for every secret, library and header.
\<close>

theorem validation_without_d:
  "processRequest ed config req body
     (Json \<lparr>wp_op = Some 13, wp_d = None, wp_t = None, wp_id = None\<rparr>)
   = Some (\<lparr>res_status = 500, res_body = ErrorBody ''Internal server error''\<rparr>, [])"
  by (simp add: processRequest_def processRequest_try_def handleURLValidation_def)

text \<open>
  Where \<open>d\<close> is an object the handler does what the claim says: 400 when a
  field is absent or empty, and 200 with the hexadecimal signature of
  \<open>event_ts + plain_token\<close> when the seed is derived and the library signs.
  The signature headers are not looked at.
\<close>

lemma validation_missing_field:
  "plain_token data = None \<or> plain_token data = Some [] \<or> event_ts data = None
     \<or> event_ts data = Some []
   \<Longrightarrow> processRequest ed config req body
         (Json \<lparr>wp_op = Some 13, wp_d = Some data, wp_t = t, wp_id = i\<rparr>)
       = Some (\<lparr>res_status = 400,
                 res_body = ErrorBody ''Missing plain_token or event_ts''\<rparr>, [])"
  by (auto simp: processRequest_def processRequest_try_def handleURLValidation_def
      split: option.splits)

lemma validation_signed:
  assumes "plain_token data = Some plainToken" and "plainToken \<noteq> []"
    and "event_ts data = Some eventTs" and "eventTs \<noteq> []"
    and "deriveSeed (server_appSecret config) = Some seed"
    and "ed_sign ed (TextEncoder_encode (eventTs @ plainToken)) seed = Inr sig"
  shows "processRequest ed config req body
           (Json \<lparr>wp_op = Some 13, wp_d = Some data, wp_t = t, wp_id = i\<rparr>)
         = Some (\<lparr>res_status = 200,
                   res_body = ValidationResponse plainToken (bytesToHex sig)\<rparr>, [])"
  using assms
  by (simp add: processRequest_def processRequest_try_def handleURLValidation_def
      signCallbackResponse_def getPrivateKey_def)

section \<open>Properties of api/client.ts\<close>

lemma getAccessToken_begin_cached:
  "accessToken c = Some tok \<Longrightarrow> tok \<noteq> [] \<Longrightarrow> tokenExpiresAt c > now + 60000
   \<Longrightarrow> getAccessToken_begin c False now = Inl tok"
  by (simp add: getAccessToken_begin_def)

lemma getAccessToken_begin_fetch:
  "forceRefresh \<or> accessToken c = None \<or> accessToken c = Some []
     \<or> tokenExpiresAt c \<le> now + 60000
   \<Longrightarrow> getAccessToken_begin c forceRefresh now
       = Inr (PostToken TOKEN_ENDPOINT (appId c) (appSecret c))"
  by (auto simp: getAccessToken_begin_def split: option.splits)

text \<open>
  Claim C6. With \<open>forceRefresh\<close> false and a cached token that expires more
  than 60 seconds after \<open>now\<close>, \<open>getAccessToken\<close> returns the cached token and
  sends nothing. In every other case (forced, nothing cached, or expiry within
  60 seconds) it sends one request with the account's \<open>appId\<close> and secret to the
  token endpoint; the token of the answer is cached with the expiry
  \<open>now + expires_in\<close> (seconds, stored as milliseconds) and returned; a rejected
  request, a failed network call and an unreadable body are thrown to the
  caller after that one request, and the cache is left as it was. A cached
  empty string is no token: JavaScript takes it for \<open>false\<close>.
\<close>

theorem getAccessToken_cache_or_fetch:
  "(accessToken c = Some tok \<and> tok \<noteq> [] \<and> tokenExpiresAt c > now + 60000
      \<longrightarrow> getAccessToken c False now reply = (Inr tok, c, []))
   \<and> (forceRefresh \<or> accessToken c = None \<or> accessToken c = Some []
        \<or> tokenExpiresAt c \<le> now + 60000
      \<longrightarrow> getAccessToken c forceRefresh now (HttpOk data)
            = (Inr (access_token data),
               c\<lparr>accessToken := Some (access_token data),
                 tokenExpiresAt := now + expires_in data * 1000\<rparr>,
               [PostToken TOKEN_ENDPOINT (appId c) (appSecret c)])
          \<and> getAccessToken c forceRefresh now (HttpError status text)
            = (Inl (AccessTokenFailed status text), c,
               [PostToken TOKEN_ENDPOINT (appId c) (appSecret c)])
          \<and> getAccessToken c forceRefresh now NetworkFailure
            = (Inl FetchFailed, c, [PostToken TOKEN_ENDPOINT (appId c) (appSecret c)])
          \<and> getAccessToken c forceRefresh now BodyNotJson
            = (Inl InvalidJson, c, [PostToken TOKEN_ENDPOINT (appId c) (appSecret c)]))"
proof (intro conjI impI)
  assume "accessToken c = Some tok \<and> tok \<noteq> [] \<and> tokenExpiresAt c > now + 60000"
  then show "getAccessToken c False now reply = (Inr tok, c, [])"
    by (simp add: getAccessToken_def getAccessToken_begin_cached)
next
  assume a: "forceRefresh \<or> accessToken c = None \<or> accessToken c = Some []
        \<or> tokenExpiresAt c \<le> now + 60000"
  note b = getAccessToken_begin_fetch [OF a]
  show "getAccessToken c forceRefresh now (HttpOk data)
            = (Inr (access_token data),
               c\<lparr>accessToken := Some (access_token data),
                 tokenExpiresAt := now + expires_in data * 1000\<rparr>,
               [PostToken TOKEN_ENDPOINT (appId c) (appSecret c)])"
    by (simp add: getAccessToken_def b getAccessToken_resume_def)
  show "getAccessToken c forceRefresh now (HttpError status text)
            = (Inl (AccessTokenFailed status text), c,
               [PostToken TOKEN_ENDPOINT (appId c) (appSecret c)])"
    by (simp add: getAccessToken_def b getAccessToken_resume_def)
  show "getAccessToken c forceRefresh now NetworkFailure
            = (Inl FetchFailed, c, [PostToken TOKEN_ENDPOINT (appId c) (appSecret c)])"
    by (simp add: getAccessToken_def b getAccessToken_resume_def)
  show "getAccessToken c forceRefresh now BodyNotJson
            = (Inl InvalidJson, c, [PostToken TOKEN_ENDPOINT (appId c) (appSecret c)])"
    by (simp add: getAccessToken_def b getAccessToken_resume_def)
qed

text \<open>
  A token cached until 7200000 is returned at 1000 and replaced at 7140000,
  one minute before it expires.
\<close>

theorem getAccessToken_cache_or_fetch_witness:
  "getAccessToken
     \<lparr>appId = ''102824573'', appSecret = ''secret'', baseUrl = PRODUCTION_API_BASE,
      accessToken = Some ''cached'', tokenExpiresAt = 7200000\<rparr> False 1000 NetworkFailure
   = (Inr ''cached'',
      \<lparr>appId = ''102824573'', appSecret = ''secret'', baseUrl = PRODUCTION_API_BASE,
       accessToken = Some ''cached'', tokenExpiresAt = 7200000\<rparr>, [])
   \<and> getAccessToken
     \<lparr>appId = ''102824573'', appSecret = ''secret'', baseUrl = PRODUCTION_API_BASE,
      accessToken = Some ''cached'', tokenExpiresAt = 7200000\<rparr> False 7140000
      (HttpOk \<lparr>access_token = ''fresh'', expires_in = 7200, token_type = ''Bearer''\<rparr>)
   = (Inr ''fresh'',
      \<lparr>appId = ''102824573'', appSecret = ''secret'', baseUrl = PRODUCTION_API_BASE,
       accessToken = Some ''fresh'', tokenExpiresAt = 14340000\<rparr>,
      [PostToken TOKEN_ENDPOINT ''102824573'' ''secret''])"
  using getAccessToken_cache_or_fetch
    [of "\<lparr>appId = ''102824573'', appSecret = ''secret'', baseUrl = PRODUCTION_API_BASE,
      accessToken = Some ''cached'', tokenExpiresAt = 7200000\<rparr>" "''cached''" 1000
      NetworkFailure]
    getAccessToken_cache_or_fetch
    [of "\<lparr>appId = ''102824573'', appSecret = ''secret'', baseUrl = PRODUCTION_API_BASE,
      accessToken = Some ''cached'', tokenExpiresAt = 7200000\<rparr>" "''cached''" 7140000
      NetworkFailure False
      "\<lparr>access_token = ''fresh'', expires_in = 7200, token_type = ''Bearer''\<rparr>"]
  by simp

text \<open>
  Claim C4, as stated: two calls racing before any token is cached make one
  request, and both callers receive its result. On a new client the second
  call finds the cache as empty as the first did: two requests are sent, the
  callers receive different tokens, and the cache keeps the second.
\<close>

theorem getAccessToken_twice_not_coalesced:
  "getAccessToken_twice
     (new_QQApiClient \<lparr>config_appId = ''102824573'', config_appSecret = ''secret'',
                       config_sandbox = None\<rparr>)
     1000 1001
     (HttpOk \<lparr>access_token = ''first'', expires_in = 7200, token_type = ''Bearer''\<rparr>)
     (HttpOk \<lparr>access_token = ''second'', expires_in = 7200, token_type = ''Bearer''\<rparr>)
   = (Inr ''first'', Inr ''second'',
      \<lparr>appId = ''102824573'', appSecret = ''secret'', baseUrl = PRODUCTION_API_BASE,
       accessToken = Some ''second'', tokenExpiresAt = 7201001\<rparr>,
      [PostToken TOKEN_ENDPOINT ''102824573'' ''secret'',
       PostToken TOKEN_ENDPOINT ''102824573'' ''secret''])"
  by (simp add: getAccessToken_twice_def new_QQApiClient_def getAccessToken_begin_def
      getAccessToken_resume_def)

text \<open>
  Claim C4, amended. Two calls of \<open>getAccessToken\<close> for one account, the
  second made while the first waits and neither finding a valid cached token,
  make two requests to the token endpoint, one each; each caller receives the
  result of its own request, and the cache keeps the token of the answer
  handled last.
\<close>

theorem getAccessToken_twice_two_requests:
  assumes "accessToken c = None \<or> accessToken c = Some []
           \<or> (tokenExpiresAt c \<le> now1 + 60000 \<and> tokenExpiresAt c \<le> now2 + 60000)"
  shows "getAccessToken_twice c now1 now2 (HttpOk data1) (HttpOk data2)
         = (Inr (access_token data1), Inr (access_token data2),
            c\<lparr>accessToken := Some (access_token data2),
              tokenExpiresAt := now2 + expires_in data2 * 1000\<rparr>,
            [PostToken TOKEN_ENDPOINT (appId c) (appSecret c),
             PostToken TOKEN_ENDPOINT (appId c) (appSecret c)])
         \<and> (case getAccessToken_twice c now1 now2 reply1 reply2 of
              (result1, result2, c', sent) \<Rightarrow>
                sent = [PostToken TOKEN_ENDPOINT (appId c) (appSecret c),
                        PostToken TOKEN_ENDPOINT (appId c) (appSecret c)]
                \<and> result1 = fst (getAccessToken_resume c now1 reply1)
                \<and> result2 = fst (getAccessToken_resume
                                   (snd (getAccessToken_resume c now1 reply1)) now2 reply2))"
proof -
  have b1: "getAccessToken_begin c False now1
            = Inr (PostToken TOKEN_ENDPOINT (appId c) (appSecret c))"
    using assms by (intro getAccessToken_begin_fetch) auto
  have b2: "getAccessToken_begin c False now2
            = Inr (PostToken TOKEN_ENDPOINT (appId c) (appSecret c))"
    using assms by (intro getAccessToken_begin_fetch) auto
  show ?thesis
    by (simp add: getAccessToken_twice_def b1 b2 getAccessToken_resume_def Let_def
        split: prod.splits fetch_result.splits)
qed

theorem getAccessToken_twice_two_requests_witness:
  "getAccessToken_twice
     \<lparr>appId = ''1'', appSecret = ''s'', baseUrl = PRODUCTION_API_BASE,
      accessToken = None, tokenExpiresAt = 0\<rparr> 5 6
     (HttpOk \<lparr>access_token = ''a'', expires_in = 10, token_type = ''Bearer''\<rparr>)
     (HttpOk \<lparr>access_token = ''b'', expires_in = 20, token_type = ''Bearer''\<rparr>)
   = (Inr ''a'', Inr ''b'',
      \<lparr>appId = ''1'', appSecret = ''s'', baseUrl = PRODUCTION_API_BASE,
       accessToken = Some ''b'', tokenExpiresAt = 20006\<rparr>,
      [PostToken TOKEN_ENDPOINT ''1'' ''s'', PostToken TOKEN_ENDPOINT ''1'' ''s''])"
  using getAccessToken_twice_two_requests
    [of "\<lparr>appId = ''1'', appSecret = ''s'', baseUrl = PRODUCTION_API_BASE,
      accessToken = None, tokenExpiresAt = 0\<rparr>" 5 6
      "\<lparr>access_token = ''a'', expires_in = 10, token_type = ''Bearer''\<rparr>"
      "\<lparr>access_token = ''b'', expires_in = 20, token_type = ''Bearer''\<rparr>"]
  by simp

section \<open>Properties of the transport\<close>

subsection \<open>Reconnect scheduling\<close>

text \<open>
  Claim C3. While the transport is neither stopping nor failed, the \<open>n\<close>-th
  reconnect since the last Ready, for \<open>n\<close> from 1 to 5, is scheduled after
  \<open>min (5000 * 2 ^ (n - 1)) 300000\<close> milliseconds; once 5 attempts have been
  made \<open>scheduleReconnect\<close> calls \<open>onError\<close> and sets no timer, also when it
  is a close with a code that is not fatal that leads there; Ready sets the
  counter to 0.
\<close>

theorem scheduleReconnect_backoff:
  assumes "\<not> isClosing r" and "\<not> isFatalError r"
  shows "(1 \<le> n \<and> n \<le> 5 \<and> reconnectAttempts r = n - 1
            \<longrightarrow> scheduleReconnect r
                = (r\<lparr>reconnectAttempts := n\<rparr>,
                   [SetTimeout (min (5000 * 2 ^ (n - 1)) 300000) ReconnectTimer]))
         \<and> (5 \<le> reconnectAttempts r
            \<longrightarrow> scheduleReconnect r = (r, [OnError MaxReconnectAttemptsReached])
              \<and> (code \<notin> set FATAL_CLOSE_CODES
                   \<longrightarrow> snd (on_close r code reason)
                       = snd (stopHeartbeat r) @ [OnError MaxReconnectAttemptsReached]))
         \<and> reconnectAttempts (fst (snd (handleReady r (Ready data)))) = 0"
  using assms
  by (auto simp: scheduleReconnect_def maxReconnectAttempts_def baseReconnectDelay_def
      Let_def on_close_def stopHeartbeat_def handleReady_def split: option.splits)

text \<open>The third reconnect waits 20 seconds; after the fifth nothing more is scheduled.\<close>

theorem scheduleReconnect_backoff_witness:
  "scheduleReconnect (new_QQChannelRuntime\<lparr>reconnectAttempts := 2\<rparr>)
   = (new_QQChannelRuntime\<lparr>reconnectAttempts := 3\<rparr>, [SetTimeout 20000 ReconnectTimer])
   \<and> scheduleReconnect (new_QQChannelRuntime\<lparr>reconnectAttempts := 5\<rparr>)
     = (new_QQChannelRuntime\<lparr>reconnectAttempts := 5\<rparr>, [OnError MaxReconnectAttemptsReached])
   \<and> snd (on_close (new_QQChannelRuntime\<lparr>reconnectAttempts := 5\<rparr>) 1006 ''abnormal'')
     = [OnError MaxReconnectAttemptsReached]"
  using scheduleReconnect_backoff [of "new_QQChannelRuntime\<lparr>reconnectAttempts := 2\<rparr>" 3]
    scheduleReconnect_backoff
      [of "new_QQChannelRuntime\<lparr>reconnectAttempts := 5\<rparr>" 3 1006 "''abnormal''"]
  by (simp add: new_QQChannelRuntime_def FATAL_CLOSE_CODES_def stopHeartbeat_def)

subsection \<open>Close codes\<close>













subsection \<open>Session quota\<close>

text \<open>
  Claim C5. When the token call has returned and the gateway answers with
  \<open>session_start_limit.remaining = 0\<close>, \<open>start\<close> sets \<open>isFatalError\<close> and
  calls \<open>onError\<close> once, with the error that carries the reset time
  \<open>Date.now() + reset_after\<close>; it creates no socket (\<open>ws\<close> is left as it
  was) and sets no timer.
\<close>

theorem start_quota_exhausted:
  assumes "getAccessToken c False (now_token env) (token_reply env) = (Inr tok, c1, sent1)"
    and "getGateway c1 (now_gateway env) (gateway_token_reply env) (gateway_reply env)
         = (Inr gateway, c2, sent2)"
    and "session_start_limit gateway = Some limit"
    and "remaining limit = 0"
  shows "start env cached c r
         = (Some tok, c2, r\<lparr>isFatalError := True\<rparr>,
            map Fetch (sent1 @ sent2)
              @ [OnError (SessionQuotaExhausted (now_quota env + reset_after limit))])
         \<and> ws (fst (snd (snd (start env cached c r)))) = ws r
         \<and> isFatalError (fst (snd (snd (start env cached c r))))
         \<and> filter isOnError (snd (snd (snd (start env cached c r))))
             = [OnError (SessionQuotaExhausted (now_quota env + reset_after limit))]
         \<and> list_all (\<lambda>e. case e of NewWebSocket address \<Rightarrow> False
                               | SetTimeout delay callback \<Rightarrow> False
                               | _ \<Rightarrow> True)
              (snd (snd (snd (start env cached c r))))"
proof -
  have eq: "start env cached c r
         = (Some tok, c2, r\<lparr>isFatalError := True\<rparr>,
            map Fetch (sent1 @ sent2)
              @ [OnError (SessionQuotaExhausted (now_quota env + reset_after limit))])"
    using assms by (simp add: start_def start_check_quota_def Let_def)
  show ?thesis
    unfolding eq by (simp add: isOnError_def list_all_iff filter_empty_conv) auto
qed

text \<open>
  A first start at time 5000 whose gateway answer leaves no session start and
  resets after 60000 milliseconds.
\<close>

theorem start_quota_exhausted_witness:
  "start
     \<lparr>now_token = 1000,
      token_reply = HttpOk \<lparr>access_token = ''tok'', expires_in = 7200,
                            token_type = ''Bearer''\<rparr>,
      now_gateway = 2000, gateway_token_reply = NetworkFailure,
      gateway_reply = HttpOk \<lparr>gateway_url = ''wss://api.sgroup.qq.com/websocket'',
                              gateway_shards = 1,
                              session_start_limit =
                                Some \<lparr>total_limit = 1000, remaining = 0, reset_after = 60000,
                                      max_concurrency = 1\<rparr>\<rparr>,
      now_quota = 5000, socket_throws = None\<rparr>
     None
     (new_QQApiClient \<lparr>config_appId = ''1'', config_appSecret = ''s'', config_sandbox = None\<rparr>)
     new_QQChannelRuntime
   = (Some ''tok'',
      \<lparr>appId = ''1'', appSecret = ''s'', baseUrl = PRODUCTION_API_BASE,
       accessToken = Some ''tok'', tokenExpiresAt = 7201000\<rparr>,
      new_QQChannelRuntime\<lparr>isFatalError := True\<rparr>,
      [Fetch (PostToken TOKEN_ENDPOINT ''1'' ''s''),
       Fetch (ApiCall ''GET'' (PRODUCTION_API_BASE @ ''/gateway/bot'') ''QQBot tok''),
       OnError (SessionQuotaExhausted 65000)])"
  using start_quota_exhausted
    [of "new_QQApiClient \<lparr>config_appId = ''1'', config_appSecret = ''s'',
                          config_sandbox = None\<rparr>"
      "\<lparr>now_token = 1000,
        token_reply = HttpOk \<lparr>access_token = ''tok'', expires_in = 7200,
                              token_type = ''Bearer''\<rparr>,
        now_gateway = 2000, gateway_token_reply = NetworkFailure,
        gateway_reply = HttpOk \<lparr>gateway_url = ''wss://api.sgroup.qq.com/websocket'',
                                gateway_shards = 1,
                                session_start_limit =
                                  Some \<lparr>total_limit = 1000, remaining = 0, reset_after = 60000,
                                        max_concurrency = 1\<rparr>\<rparr>,
        now_quota = 5000, socket_throws = None\<rparr>"
      "''tok''"
      "\<lparr>appId = ''1'', appSecret = ''s'', baseUrl = PRODUCTION_API_BASE,
        accessToken = Some ''tok'', tokenExpiresAt = 7201000\<rparr>"
      "[PostToken TOKEN_ENDPOINT ''1'' ''s'']"
      "\<lparr>gateway_url = ''wss://api.sgroup.qq.com/websocket'', gateway_shards = 1,
        session_start_limit =
          Some \<lparr>total_limit = 1000, remaining = 0, reset_after = 60000, max_concurrency = 1\<rparr>\<rparr>"
      "\<lparr>appId = ''1'', appSecret = ''s'', baseUrl = PRODUCTION_API_BASE,
        accessToken = Some ''tok'', tokenExpiresAt = 7201000\<rparr>"
      "[ApiCall ''GET'' (PRODUCTION_API_BASE @ ''/gateway/bot'') ''QQBot tok'']"
      "\<lparr>total_limit = 1000, remaining = 0, reset_after = 60000, max_concurrency = 1\<rparr>"
      None new_QQChannelRuntime]
  by (simp add: new_QQApiClient_def getAccessToken_def getAccessToken_begin_def
      getAccessToken_resume_def getGateway_def request_def)

subsection \<open>The sequence number\<close>

lemma handlePayload_lastSequence:
  "lastSequence (fst (snd (handlePayload now cached c r payload)))
   = (case payload_s payload of Some s \<Rightarrow> Some s | None \<Rightarrow> lastSequence r)"
  by (auto simp: handlePayload_def Let_def handleHello_def handleDispatch_def handleReady_def
      startHeartbeat_def stopHeartbeat_def reconnect_begin_def
      split: option.splits payload_data.splits prod.splits)

lemma on_message_lastSequence:
  "lastSequence (fst (on_message now cached c r (Some payload)))
   = (case payload_s payload of Some s \<Rightarrow> Some s | None \<Rightarrow> lastSequence r)"
  using handlePayload_lastSequence [of now cached c r payload]
  by (cases "handlePayload now cached c r payload") (simp add: on_message_def)

lemma handle_frames_snoc:
  "handle_frames now cached c r (frames @ [frame])
   = fst (on_message now cached c (handle_frames now cached c r frames) (Some frame))"
  by (simp add: handle_frames_def)

lemma handle_frames_lastSequence:
  "lastSequence (handle_frames now cached c r frames)
   = (if carried frames = [] then lastSequence r else Some (last (carried frames)))"
proof (induction frames rule: rev_induct)
  case Nil
  then show ?case by (simp add: handle_frames_def carried_def)
next
  case (snoc frame frames)
  show ?case
    by (cases "payload_s frame")
       (simp_all add: handle_frames_snoc on_message_lastSequence snoc.IH carried_def
          List.map_filter_def)
qed

lemma carried_append: "carried (xs @ ys) = carried xs @ carried ys"
  by (simp add: carried_def List.map_filter_def)

lemma carried_take_drop: "carried frames = carried (take k frames) @ carried (drop k frames)"
  using carried_append [of "take k frames" "drop k frames"] by simp

lemma handle_frames_monotone:
  assumes "sorted (carried frames)"
    and "list_all (\<lambda>s. seq_le (lastSequence r) (Some s)) (carried frames)"
    and "j \<le> k"
  shows "seq_le (lastSequence (handle_frames now cached c r (take j frames)))
           (lastSequence (handle_frames now cached c r (take k frames)))"
proof -
  have "take j (take k frames) = take j frames"
    using assms(3) by (simp add: min_def)
  then have tk: "take k frames = take j frames @ drop j (take k frames)"
    using append_take_drop_id [of j "take k frames"] by simp
  define A where "A = carried (take j frames)"
  define B where "B = carried (drop j (take k frames))"
  have ck: "carried (take k frames) = A @ B"
    unfolding A_def B_def using carried_append [of "take j frames" "drop j (take k frames)"] tk
    by simp
  have "carried frames = (A @ B) @ carried (drop k frames)"
    using carried_take_drop [of frames k] ck by simp
  then have srt: "sorted (A @ B)"
    and all: "list_all (\<lambda>s. seq_le (lastSequence r) (Some s)) (A @ B)"
    using assms(1,2) by (simp_all add: sorted_append)
  show ?thesis
  proof (cases "B = []")
    case True
    then show ?thesis
      by (simp add: handle_frames_lastSequence ck A_def [symmetric] seq_le_def
          split: option.splits)
  next
    case False
    note B = this
    show ?thesis
    proof (cases "A = []")
      case True
      have "last B \<in> set B" using B by simp
      then have "seq_le (lastSequence r) (Some (last B))"
        using all by (simp add: list_all_iff)
      then show ?thesis
        using True B by (simp add: handle_frames_lastSequence ck A_def [symmetric])
    next
      case False
      have "last A \<in> set A" "last B \<in> set B" using False B by simp_all
      then have "last A \<le> last B" using srt by (simp add: sorted_append)
      then show ?thesis
        using False B
        by (simp add: handle_frames_lastSequence ck A_def [symmetric] seq_le_def)
    qed
  qed
qed

lemma events_keep_lastSequence:
  "\<not> isMessage ev \<Longrightarrow> lastSequence (fst (handle_event cached c r ev)) = lastSequence r"
  by (cases ev)
     (auto simp: handle_event_def isMessage_def on_open_def on_close_def on_error_def
        reconnect_timer_def reconnect_begin_def invalid_session_timer_def scheduleReconnect_def
        stopHeartbeat_def Let_def split: option.splits prod.splits)

lemma start_keeps_lastSequence:
  "lastSequence (fst (snd (snd (start env cached c r)))) = lastSequence r"
  by (auto simp: start_def start_catch_def start_check_quota_def start_connect_def
      scheduleReconnect_def Let_def split: prod.splits sum.splits option.splits)

lemma reconnect_resume_keeps_lastSequence:
  "lastSequence (fst (snd (snd (reconnect_resume now reply env cached c r)))) = lastSequence r"
  by (simp add: reconnect_resume_def start_keeps_lastSequence split: prod.splits sum.splits)

lemma stop_nulls_lastSequence: "lastSequence (fst (stop r)) = None"
  by (simp add: stop_def stopHeartbeat_def Let_def split: option.splits prod.splits)

text \<open>
  Claim C7, as stated: every update leaves \<open>lastSequence\<close> at least what it
  was. \<open>handlePayload\<close> assigns the frame's number without comparing: after a
  frame with number 5 and one with number 3 the stored number is 3.
\<close>

theorem lastSequence_decreases:
  "lastSequence
     (handle_frames 0 None
        (new_QQApiClient \<lparr>config_appId = ''1'', config_appSecret = ''s'',
                          config_sandbox = None\<rparr>)
        new_QQChannelRuntime
        [\<lparr>payload_op = OpCode_Dispatch, payload_d = NoData, payload_s = Some 5,
          payload_t = Some ''GUILD_CREATE''\<rparr>])
   = Some 5
   \<and> lastSequence
     (handle_frames 0 None
        (new_QQApiClient \<lparr>config_appId = ''1'', config_appSecret = ''s'',
                          config_sandbox = None\<rparr>)
        new_QQChannelRuntime
        [\<lparr>payload_op = OpCode_Dispatch, payload_d = NoData, payload_s = Some 5,
          payload_t = Some ''GUILD_CREATE''\<rparr>,
         \<lparr>payload_op = OpCode_Dispatch, payload_d = NoData, payload_s = Some 3,
          payload_t = Some ''GUILD_CREATE''\<rparr>])
   = Some 3"
  by (simp add: handle_frames_def on_message_def handlePayload_def handleDispatch_def
      OpCode_Dispatch_def OpCode_Hello_def new_QQChannelRuntime_def)

text \<open>
  Claim C7, amended. A frame that carries a sequence number sets
  \<open>lastSequence\<close> to it, and a frame that carries none, or a message that is
  not JSON, leaves it: after the frames of a connection it is the number
  carried by the last frame that had one. It never decreases along the frames
  when the numbers they carry do not decrease and are not below the stored
  one. No callback of the socket or the timers, nor \<open>start\<close> nor the second
  part of \<open>reconnect\<close>, changes it otherwise; \<open>stop\<close> sets it to \<open>null\<close>.
\<close>

theorem lastSequence_follows_frames:
  "lastSequence (fst (on_message now cached c r (Some frame)))
     = (case payload_s frame of Some s \<Rightarrow> Some s | None \<Rightarrow> lastSequence r)
   \<and> lastSequence (fst (on_message now cached c r None)) = lastSequence r
   \<and> lastSequence (handle_frames now cached c r frames)
     = (if carried frames = [] then lastSequence r else Some (last (carried frames)))
   \<and> (sorted (carried frames)
        \<and> list_all (\<lambda>s. seq_le (lastSequence r) (Some s)) (carried frames) \<and> j \<le> k
      \<longrightarrow> seq_le (lastSequence (handle_frames now cached c r (take j frames)))
            (lastSequence (handle_frames now cached c r (take k frames))))
   \<and> (\<not> isMessage ev \<longrightarrow> lastSequence (fst (handle_event cached c r ev)) = lastSequence r)
   \<and> lastSequence (fst (snd (snd (start env cached c r)))) = lastSequence r
   \<and> lastSequence (fst (snd (snd (reconnect_resume now reply env cached c r))))
     = lastSequence r
   \<and> lastSequence (fst (stop r)) = None"
  using on_message_lastSequence [of now cached c r frame]
    handle_frames_lastSequence [of now cached c r frames]
    handle_frames_monotone [of frames r j k now cached c]
    events_keep_lastSequence [of ev cached c r]
    start_keeps_lastSequence [of env cached c r]
    reconnect_resume_keeps_lastSequence [of now reply env cached c r]
    stop_nulls_lastSequence [of r]
  by (simp add: on_message_def)

text \<open>Frames numbered 1 and 2 on a new transport, and the close that follows them.\<close>

theorem lastSequence_follows_frames_witness:
  "seq_le
     (lastSequence
        (handle_frames 0 None
           (new_QQApiClient \<lparr>config_appId = ''1'', config_appSecret = ''s'',
                             config_sandbox = None\<rparr>)
           new_QQChannelRuntime
           (take 1
              [\<lparr>payload_op = OpCode_Dispatch, payload_d = NoData, payload_s = Some 1,
                payload_t = Some ''GUILD_CREATE''\<rparr>,
               \<lparr>payload_op = OpCode_Dispatch, payload_d = NoData, payload_s = Some 2,
                payload_t = Some ''GUILD_CREATE''\<rparr>])))
     (lastSequence
        (handle_frames 0 None
           (new_QQApiClient \<lparr>config_appId = ''1'', config_appSecret = ''s'',
                             config_sandbox = None\<rparr>)
           new_QQChannelRuntime
           (take 2
              [\<lparr>payload_op = OpCode_Dispatch, payload_d = NoData, payload_s = Some 1,
                payload_t = Some ''GUILD_CREATE''\<rparr>,
               \<lparr>payload_op = OpCode_Dispatch, payload_d = NoData, payload_s = Some 2,
                payload_t = Some ''GUILD_CREATE''\<rparr>])))
   \<and> lastSequence
       (fst (handle_event None
          (new_QQApiClient \<lparr>config_appId = ''1'', config_appSecret = ''s'',
                            config_sandbox = None\<rparr>)
          new_QQChannelRuntime (EvClose 1006 ''abnormal'')))
     = lastSequence new_QQChannelRuntime"
proof -
  note t = lastSequence_follows_frames
    [of 0 None
      "new_QQApiClient \<lparr>config_appId = ''1'', config_appSecret = ''s'',
                        config_sandbox = None\<rparr>"
      new_QQChannelRuntime
      "\<lparr>payload_op = OpCode_Dispatch, payload_d = NoData, payload_s = Some 1,
        payload_t = Some ''GUILD_CREATE''\<rparr>"
      "[\<lparr>payload_op = OpCode_Dispatch, payload_d = NoData, payload_s = Some 1,
         payload_t = Some ''GUILD_CREATE''\<rparr>,
        \<lparr>payload_op = OpCode_Dispatch, payload_d = NoData, payload_s = Some 2,
         payload_t = Some ''GUILD_CREATE''\<rparr>]"
      1 2 "EvClose 1006 ''abnormal''"
      "\<lparr>now_token = 0, token_reply = NetworkFailure, now_gateway = 0,
        gateway_token_reply = NetworkFailure, gateway_reply = NetworkFailure,
        now_quota = 0, socket_throws = None\<rparr>"
      NetworkFailure]
  note frames = t [THEN conjunct2, THEN conjunct2, THEN conjunct2, THEN conjunct1]
  note events = t [THEN conjunct2, THEN conjunct2, THEN conjunct2, THEN conjunct2,
                   THEN conjunct1]
  have "lastSequence new_QQChannelRuntime = None"
    by (simp add: new_QQChannelRuntime_def)
  then have ordered:
    "sorted (carried
       [\<lparr>payload_op = OpCode_Dispatch, payload_d = NoData, payload_s = Some 1,
          payload_t = Some ''GUILD_CREATE''\<rparr>,
        \<lparr>payload_op = OpCode_Dispatch, payload_d = NoData, payload_s = Some 2,
          payload_t = Some ''GUILD_CREATE''\<rparr>])
     \<and> list_all (\<lambda>s. seq_le (lastSequence new_QQChannelRuntime) (Some s))
         (carried
            [\<lparr>payload_op = OpCode_Dispatch, payload_d = NoData, payload_s = Some 1,
               payload_t = Some ''GUILD_CREATE''\<rparr>,
             \<lparr>payload_op = OpCode_Dispatch, payload_d = NoData, payload_s = Some 2,
               payload_t = Some ''GUILD_CREATE''\<rparr>])
     \<and> (1 :: nat) \<le> 2"
    by (simp add: carried_def List.map_filter_def seq_le_def)
  have "\<not> isMessage (EvClose 1006 ''abnormal'')"
    by (simp add: isMessage_def)
  with frames [rule_format, OF ordered] events show ?thesis
    by blast
qed

subsection \<open>The token of the Identify frame\<close>

text \<open>
  The Identify frame carries whatever the module's variable holds when Hello
  arrives, and every \<open>start\<close> whose token call returns overwrites it,
  whichever runtime and client it runs on.
\<close>

lemma sendIdentify_reads_cached:
  "ws r = Some socket \<Longrightarrow> ws_readyState socket = OPEN
   \<Longrightarrow> identify_tokens (sendIdentify cached r)
       = [''QQBot '' @ (case cached of None \<Rightarrow> ''null'' | Some t \<Rightarrow> t)]"
  by (simp add: sendIdentify_def send_def identify_tokens_def Let_def)

lemma start_writes_cached:
  "getAccessToken c False (now_token env) (token_reply env) = (Inr tok, c1, sent1)
   \<Longrightarrow> fst (start env cached c r) = Some tok"
  by (simp add: start_def Let_def split: prod.splits sum.splits)

text \<open>
  Claim C8. The token in account A's Identify frame depends on account A
  alone. \<open>cachedAccessToken\<close> is one variable of the module for all
  runtimes: after A has started with \<open>tokenA\<close> and its socket is open, the
  Hello frame makes A identify with \<open>tokenA\<close> if nothing else happened, and
  with \<open>tokenB\<close> if account B started in between.
\<close>

theorem identify_token_of_other_account:
  "(let clientA = new_QQApiClient \<lparr>config_appId = ''A'', config_appSecret = ''secretA'',
                                   config_sandbox = None\<rparr>;
        clientB = new_QQApiClient \<lparr>config_appId = ''B'', config_appSecret = ''secretB'',
                                   config_sandbox = None\<rparr>;
        gateway = HttpOk \<lparr>gateway_url = ''wss://api.sgroup.qq.com/websocket'',
                          gateway_shards = 1, session_start_limit = None\<rparr>;
        envA = \<lparr>now_token = 0,
                token_reply = HttpOk \<lparr>access_token = ''tokenA'', expires_in = 7200,
                                      token_type = ''Bearer''\<rparr>,
                now_gateway = 1, gateway_token_reply = NetworkFailure,
                gateway_reply = gateway, now_quota = 2, socket_throws = None\<rparr>;
        envB = envA\<lparr>token_reply := HttpOk \<lparr>access_token = ''tokenB'', expires_in = 7200,
                                           token_type = ''Bearer''\<rparr>\<rparr>;
        hello = \<lparr>payload_op = OpCode_Hello, payload_d = Hello \<lparr>heartbeat_interval = 41250\<rparr>,
                 payload_s = None, payload_t = None\<rparr>;
        (cachedA, clientA1, runtimeA, effectsA) = start envA None clientA new_QQChannelRuntime;
        runtimeA1 = fst (on_open runtimeA);
        (cachedB, clientB1, runtimeB, effectsB) = start envB cachedA clientB new_QQChannelRuntime
    in (identify_tokens (snd (on_message 3 cachedA clientA1 runtimeA1 (Some hello))),
        identify_tokens (snd (on_message 3 cachedB clientA1 runtimeA1 (Some hello)))))
   = ([''QQBot tokenA''], [''QQBot tokenB''])"
  by (simp add: Let_def new_QQApiClient_def new_QQChannelRuntime_def start_def
      getAccessToken_def getAccessToken_begin_def getAccessToken_resume_def getGateway_def
      request_def start_check_quota_def start_connect_def on_open_def on_message_def
      handlePayload_def handleHello_def startHeartbeat_def stopHeartbeat_def sendIdentify_def
      send_def identify_tokens_def OpCode_Hello_def)

section \<open>The older transport\<close>

text \<open>
  The older version does none of the three things: a close with code 4004
  schedules a reconnect like any other, the third reconnect waits 15 seconds
  instead of 20, and a gateway answer without remaining session starts is
  followed by a new socket.
\<close>

lemma on_close_old_fatal_code:
  "on_close_old new_QQChannelRuntime 4004 ''auth''
   = (new_QQChannelRuntime\<lparr>reconnectAttempts := 1\<rparr>, [SetTimeout 5000 ReconnectTimer])"
  by (simp add: on_close_old_def scheduleReconnect_old_def stopHeartbeat_def
      new_QQChannelRuntime_def maxReconnectAttempts_def reconnectDelay_def)

lemma scheduleReconnect_old_linear:
  "\<not> isClosing r \<Longrightarrow> reconnectAttempts r < 5
   \<Longrightarrow> scheduleReconnect_old r
       = (r\<lparr>reconnectAttempts := reconnectAttempts r + 1\<rparr>,
          [SetTimeout (5000 * (int (reconnectAttempts r) + 1)) ReconnectTimer])"
  by (simp add: scheduleReconnect_old_def maxReconnectAttempts_def reconnectDelay_def)

lemma start_old_ignores_quota:
  assumes "getAccessToken c False (now_token env) (token_reply env) = (Inr tok, c1, sent1)"
    and "getGateway c1 (now_gateway env) (gateway_token_reply env) (gateway_reply env)
         = (Inr gateway, c2, sent2)"
    and "socket_throws env = None"
  shows "start_old env cached c r
         = (Some tok, c2,
            r\<lparr>ws := Some \<lparr>ws_url = gateway_url gateway, ws_readyState = CONNECTING\<rparr>\<rparr>,
            map Fetch (sent1 @ sent2) @ [NewWebSocket (gateway_url gateway)])"
  using assms by (simp add: start_old_def)

end
